theory Spec2Isabelle
  imports Main
begin

section \<open>The session manager of Conector: data model\<close>

text \<open>
  The development embeds the class \<open>ClientManager\<close> (registry of WhatsApp clients per user,
  last pairing QR per user, webhook dispatch, session teardown, recovery at start-up) and the
  route \<open>POST /config/webhook\<close>.

  The external collaborators (the messaging client, the configuration store, the HTTP client,
  the file system, the socket server) are not computed: each call to one of them takes its
  outcome as an argument of the model, and leaves a record of the call in the state.
\<close>

type_synonym userId = string

text \<open>The identity of a \<open>Client\<close> object: the number of clients constructed before it.\<close>

type_synonym handle = nat

text \<open>The outcome of an awaited call: the promise resolves with a value or rejects.\<close>

datatype 'a outcome = Resolves 'a | Rejects string

text \<open>The result of running a piece of the manager: normal completion or a raised error.\<close>

datatype 'a res = Ok 'a | Raise string

text \<open>What \<open>emitToUser\<close> sends to a room: the event name with its payload.\<close>

datatype push =
    Status string
  | QrCode string
  | ReadyEv
  | ErrorEv string
  | DisconnectedEv string

datatype level = Info | Warn | Err

text \<open>A message as the client library hands it to the \<open>message\<close> handler.\<close>

record message =
  msg_from :: string
  msg_to :: string
  msg_body :: string
  msg_type :: string
  msg_timestamp :: nat
  msg_notifyName :: "string option"
  msg_hasMedia :: bool
  msg_id :: string
  msg_fromMe :: bool

text \<open>The object posted to the webhook.\<close>

record payload =
  p_from :: string
  p_to :: string
  p_body :: string
  p_type :: string
  p_timestamp :: nat
  p_notifyName :: string
  p_hasMedia :: bool
  p_isGroup :: bool
  p_id :: string
  p_fromMe :: bool

text \<open>The columns selected from \<open>user_configs\<close>; \<open>None\<close> is SQL NULL.\<close>

record config =
  webhook_url :: "string option"
  webhook_trigger :: "string option"

text \<open>What \<open>.single()\<close> resolves with: the pair \<open>{ data, error }\<close>.\<close>

record lookup =
  data :: "config option"
  error :: "string option"

text \<open>
  The manager: the two maps of the class, and the trace of every call it makes to the outside
  (clients constructed with their \<open>clientId\<close>, calls of \<open>initialize\<close>, \<open>logout\<close> and
  \<open>destroy\<close>, socket emissions, HTTP posts, console lines), with the children of the
  credential directory.
\<close>

record mgr =
  clients :: "userId \<rightharpoonup> handle"
  lastQr :: "userId \<rightharpoonup> string"
  created :: "(handle \<times> userId) list"
  initialized :: "handle list"
  loggedOut :: "handle list"
  destroyed :: "handle list"
  emitted :: "(userId \<times> push) list"
  posts :: "(string \<times> payload) list"
  dirs :: "string list"
  console :: "(level \<times> string) list"

definition new_mgr :: "string list \<Rightarrow> mgr" where
  "new_mgr ds = \<lparr>clients = Map.empty, lastQr = Map.empty, created = [], initialized = [],
     loggedOut = [], destroyed = [], emitted = [], posts = [], dirs = ds, console = []\<rparr>"

section \<open>Sequencing, exceptions and the primitive calls\<close>

type_synonym 'a act = "mgr \<Rightarrow> 'a res \<times> mgr"

text \<open>A statement that cannot raise.\<close>

definition exec :: "(mgr \<Rightarrow> mgr) \<Rightarrow> unit act" where
  "exec f s = (Ok (), f s)"

text \<open>Statements in sequence: a raised error skips what follows.\<close>

fun steps :: "unit act list \<Rightarrow> unit act" where
  "steps [] s = (Ok (), s)"
| "steps (a # as) s = (case a s of (Ok _, s') \<Rightarrow> steps as s' | (Raise e, s') \<Rightarrow> (Raise e, s'))"

text \<open>\<open>try { body } catch (e) { handler }\<close>.\<close>

definition try_catch :: "unit act \<Rightarrow> (string \<Rightarrow> unit act) \<Rightarrow> unit act" where
  "try_catch body handler s =
     (case body s of (Ok x, s') \<Rightarrow> (Ok x, s') | (Raise e, s') \<Rightarrow> handler e s')"

text \<open>\<open>await p\<close> for a promise with a given outcome: a rejection is raised.\<close>

definition await :: "unit outcome \<Rightarrow> unit act" where
  "await out s = (case out of Resolves _ \<Rightarrow> (Ok (), s) | Rejects e \<Rightarrow> (Raise e, s))"

text \<open>Whether an awaited call ended in a rejection.\<close>

definition failed :: "unit outcome \<Rightarrow> bool" where
  "failed out = (case out of Resolves _ \<Rightarrow> False | Rejects _ \<Rightarrow> True)"

definition console_log :: "string \<Rightarrow> mgr \<Rightarrow> mgr" where
  "console_log m s = s\<lparr>console := console s @ [(Info, m)]\<rparr>"

definition console_warn :: "string \<Rightarrow> mgr \<Rightarrow> mgr" where
  "console_warn m s = s\<lparr>console := console s @ [(Warn, m)]\<rparr>"

definition console_error :: "string \<Rightarrow> mgr \<Rightarrow> mgr" where
  "console_error m s = s\<lparr>console := console s @ [(Err, m)]\<rparr>"

definition emitToUser :: "userId \<Rightarrow> push \<Rightarrow> mgr \<Rightarrow> mgr" where
  "emitToUser userId ev s = s\<lparr>emitted := emitted s @ [(userId, ev)]\<rparr>"

definition getClient :: "mgr \<Rightarrow> userId \<Rightarrow> handle option" where
  "getClient s userId = clients s userId"

definition getQr :: "mgr \<Rightarrow> userId \<Rightarrow> string option" where
  "getQr s userId = lastQr s userId"

definition clients_delete :: "userId \<Rightarrow> mgr \<Rightarrow> mgr" where
  "clients_delete userId s = s\<lparr>clients := (clients s)(userId := None)\<rparr>"

definition clients_set :: "userId \<Rightarrow> handle \<Rightarrow> mgr \<Rightarrow> mgr" where
  "clients_set userId client s = s\<lparr>clients := (clients s)(userId \<mapsto> client)\<rparr>"

definition lastQr_set :: "userId \<Rightarrow> string \<Rightarrow> mgr \<Rightarrow> mgr" where
  "lastQr_set userId qr s = s\<lparr>lastQr := (lastQr s)(userId \<mapsto> qr)\<rparr>"

definition lastQr_delete :: "userId \<Rightarrow> mgr \<Rightarrow> mgr" where
  "lastQr_delete userId s = s\<lparr>lastQr := (lastQr s)(userId := None)\<rparr>"

text \<open>
  The constructor of \<open>LocalAuth\<close>, in the client library, throws for a \<open>clientId\<close> that is
  not empty and has a character other than a letter, a digit, an underscore or a hyphen: its
  test is \<open>clientId && !/^[-_\w]+$/i.test(clientId)\<close>.
\<close>

definition valid_clientId :: "string \<Rightarrow> bool" where
  "valid_clientId clientId =
     list_all
       (\<lambda>c. c \<in> set ''abcdefghijklmnopqrstuvwxyzABCDEFGHIJKLMNOPQRSTUVWXYZ0123456789_-'')
       clientId"

text \<open>
  \<open>new Client({ authStrategy: new LocalAuth({ clientId: userId, ... }), ... })\<close>: a new
  object, recorded with the user its handlers are closed over, or the error the constructor
  of \<open>LocalAuth\<close> throws.
\<close>

definition new_Client :: "userId \<Rightarrow> mgr \<Rightarrow> handle res \<times> mgr" where
  "new_Client userId s =
     (if valid_clientId userId then
        (Ok (length (created s)), s\<lparr>created := created s @ [(length (created s), userId)]\<rparr>)
      else
        (Raise ''Invalid clientId. Only alphanumeric characters, underscores and hyphens are allowed.'',
         s))"

text \<open>The user a client's handlers were registered for, if the client was ever constructed.\<close>

definition handler_user :: "mgr \<Rightarrow> handle \<Rightarrow> userId option" where
  "handler_user s client = map_of (created s) client"

definition call_initialize :: "handle \<Rightarrow> mgr \<Rightarrow> mgr" where
  "call_initialize client s = s\<lparr>initialized := initialized s @ [client]\<rparr>"

definition client_logout :: "handle \<Rightarrow> unit outcome \<Rightarrow> unit act" where
  "client_logout client out s = await out (s\<lparr>loggedOut := loggedOut s @ [client]\<rparr>)"

definition client_destroy :: "handle \<Rightarrow> unit outcome \<Rightarrow> unit act" where
  "client_destroy client out s = await out (s\<lparr>destroyed := destroyed s @ [client]\<rparr>)"

text \<open>
  The children of the credential directory are kept by name; \<open>sessionDir\<close> is the child
  \<open>path.join(authDir, `session-${userId}`)\<close> names.
\<close>

definition sessionDir :: "userId \<Rightarrow> string" where
  "sessionDir userId = ''session-'' @ userId"

definition pathExists :: "mgr \<Rightarrow> string \<Rightarrow> bool" where
  "pathExists s name = (name \<in> set (dirs s))"

definition fs_remove :: "string \<Rightarrow> unit outcome \<Rightarrow> unit act" where
  "fs_remove name out s =
     (case out of
        Resolves _ \<Rightarrow> (Ok (), s\<lparr>dirs := removeAll name (dirs s)\<rparr>)
      | Rejects e \<Rightarrow> (Raise e, s))"

section \<open>Strings as JavaScript treats them\<close>

definition startsWith :: "string \<Rightarrow> string \<Rightarrow> bool" where
  "startsWith s p = (take (length p) s = p)"

text \<open>\<open>s.includes(p)\<close>: \<open>p\<close> occurs in \<open>s\<close>.\<close>

fun includes_str :: "string \<Rightarrow> string \<Rightarrow> bool" where
  "includes_str [] p = (p = [])"
| "includes_str (c # cs) p = (startsWith (c # cs) p \<or> includes_str cs p)"

text \<open>\<open>s.replace(p, r)\<close> with a string pattern: the first occurrence only.\<close>

fun replace_first :: "string \<Rightarrow> string \<Rightarrow> string \<Rightarrow> string" where
  "replace_first [] p r = (if p = [] then r else [])"
| "replace_first (c # cs) p r =
     (if startsWith (c # cs) p then r @ drop (length p) (c # cs)
      else c # replace_first cs p r)"

text \<open>\<open>x || d\<close> on a nullable string: null, undefined and the empty string give \<open>d\<close>.\<close>

definition or_default :: "string option \<Rightarrow> string \<Rightarrow> string" where
  "or_default x d = (case x of None \<Rightarrow> d | Some v \<Rightarrow> if v = [] then d else v)"

text \<open>\<open>!x\<close> on a nullable string.\<close>

definition falsy :: "string option \<Rightarrow> bool" where
  "falsy x = (case x of None \<Rightarrow> True | Some v \<Rightarrow> v = [])"

section \<open>dispatchWebhook\<close>

definition build_payload :: "message \<Rightarrow> payload" where
  "build_payload m =
     \<lparr>p_from = msg_from m, p_to = msg_to m, p_body = msg_body m, p_type = msg_type m,
      p_timestamp = msg_timestamp m, p_notifyName = or_default (msg_notifyName m) [],
      p_hasMedia = msg_hasMedia m, p_isGroup = includes_str (msg_from m) ''@g.us'',
      p_id = msg_id m, p_fromMe = msg_fromMe m\<rparr>"

definition axios_post :: "string \<Rightarrow> payload \<Rightarrow> unit outcome \<Rightarrow> unit act" where
  "axios_post url p out s = await out (s\<lparr>posts := posts s @ [(url, p)]\<rparr>)"

text \<open>
  The body of the \<open>try\<close> block. \<open>lk\<close> is the outcome of the awaited query, \<open>po\<close> the outcome
  of the awaited post (read only when the post is made).
\<close>

definition dispatch_body :: "userId \<Rightarrow> message \<Rightarrow> lookup outcome \<Rightarrow> unit outcome \<Rightarrow> unit act" where
  "dispatch_body userId m lk po s =
     (case lk of
        Rejects e \<Rightarrow> (Raise e, s)
      | Resolves r \<Rightarrow>
          if error r \<noteq> None \<or> data r = None \<or> falsy (webhook_url (the (data r))) then (Ok (), s)
          else
            (let url = the (webhook_url (the (data r)));
                 trigger = or_default (webhook_trigger (the (data r))) ''incoming'';
                 isOutgoing = msg_fromMe m
             in if trigger = ''incoming'' \<and> isOutgoing then (Ok (), s)
                else if trigger = ''outgoing'' \<and> \<not> isOutgoing then (Ok (), s)
                else steps
                  [exec (console_log (''Sending webhook to '' @ url @ '' for '' @ userId)),
                   axios_post url (build_payload m) po] s))"

definition dispatchWebhook :: "userId \<Rightarrow> message \<Rightarrow> lookup outcome \<Rightarrow> unit outcome \<Rightarrow> unit act" where
  "dispatchWebhook userId m lk po =
     try_catch (dispatch_body userId m lk po)
       (\<lambda>e. exec (console_error (''Error sending webhook for '' @ userId)))"

section \<open>startClient and the handlers it registers\<close>

text \<open>
  How the part of \<open>startClient\<close> before its \<open>await\<close> ends: it returns the registered
  client, or it reaches the \<open>await\<close> with a new client, or the constructor throws.
\<close>

datatype started = Existing handle | Fresh handle | Threw string

text \<open>
  The part of \<open>startClient\<close> that runs before its only \<open>await\<close>: the test of the registry,
  the construction, the registration and the call of \<open>initialize\<close>. No other code of the
  process runs inside it. The construction is before \<open>clients.set\<close> and outside the \<open>try\<close>:
  when it throws, nothing is registered and the call ends there.
\<close>

definition startClient_sync :: "userId \<Rightarrow> mgr \<Rightarrow> started \<times> mgr" where
  "startClient_sync userId s =
     (case clients s userId of
        Some existing \<Rightarrow> (Existing existing, emitToUser userId (Status ''CONNECTED'') s)
      | None \<Rightarrow>
          (let s1 = console_log (''Starting client for '' @ userId) s;
               s2 = emitToUser userId (Status ''INITIALIZING'') s1
           in case new_Client userId s2 of
                (Raise e, s3) \<Rightarrow> (Threw e, s3)
              | (Ok client, s3) \<Rightarrow>
                  (Fresh client, call_initialize client (clients_set userId client s3))))"

text \<open>The part after the \<open>await\<close>, inside the \<open>try\<close>: \<open>out\<close> is how \<open>initialize\<close> ended.\<close>

definition startClient_settle :: "userId \<Rightarrow> unit outcome \<Rightarrow> unit act" where
  "startClient_settle userId out =
     try_catch (await out)
       (\<lambda>e. steps
          [exec (console_error (''Failed to initialize client for '' @ userId)),
           exec (emitToUser userId (ErrorEv ''Failed to initialize''))])"

definition startClient :: "userId \<Rightarrow> unit outcome \<Rightarrow> handle act" where
  "startClient userId out s =
     (case startClient_sync userId s of
        (Existing existing, s1) \<Rightarrow> (Ok existing, s1)
      | (Threw e, s1) \<Rightarrow> (Raise e, s1)
      | (Fresh client, s1) \<Rightarrow>
          (case startClient_settle userId out s1 of
             (Ok _, s2) \<Rightarrow> (Ok client, s2)
           | (Raise e, s2) \<Rightarrow> (Raise e, s2)))"

text \<open>
  The events of the client library. A message comes with the outcomes of the two awaited
  calls its dispatch makes.
\<close>

datatype client_event =
    EvQr string
  | EvReady
  | EvAuthFailure string
  | EvMessage message "lookup outcome" "unit outcome"
  | EvDisconnected string

fun on_event :: "userId \<Rightarrow> client_event \<Rightarrow> unit act" where
  "on_event userId (EvQr qr) =
     steps [exec (console_log (''QR received for '' @ userId)),
            exec (lastQr_set userId qr),
            exec (emitToUser userId (QrCode qr))]"
| "on_event userId EvReady =
     steps [exec (console_log (''Client '' @ userId @ '' is ready!'')),
            exec (lastQr_delete userId),
            exec (emitToUser userId ReadyEv),
            exec (emitToUser userId (Status ''CONNECTED''))]"
| "on_event userId (EvAuthFailure msg) =
     steps [exec (console_error (''Auth failure for '' @ userId @ '': '')),
            exec (emitToUser userId (ErrorEv ''Auth failure''))]"
| "on_event userId (EvMessage m lk po) = dispatchWebhook userId m lk po"
| "on_event userId (EvDisconnected reason) =
     steps [exec (console_log (''Client '' @ userId @ '' disconnected: '' @ reason @ '' '')),
            exec (emitToUser userId (DisconnectedEv reason)),
            exec (clients_delete userId)]"

section \<open>deleteSession\<close>

definition del_logout :: "handle \<Rightarrow> unit outcome \<Rightarrow> unit act" where
  "del_logout client lo =
     try_catch (client_logout client lo) (\<lambda>e. exec (console_warn ''Logout failed''))"

definition del_destroy :: "handle \<Rightarrow> unit outcome \<Rightarrow> unit act" where
  "del_destroy client de =
     try_catch (client_destroy client de) (\<lambda>e. exec (console_warn ''Destroy failed''))"

definition del_files :: "userId \<Rightarrow> unit outcome \<Rightarrow> unit act" where
  "del_files userId rm s =
     (if pathExists s (sessionDir userId) then
        try_catch
          (steps [fs_remove (sessionDir userId) rm,
                  exec (console_log (''Session files deleted for '' @ userId))])
          (\<lambda>e. exec (console_error ''Could not delete session files'')) s
      else (Ok (), s))"

text \<open>\<open>lo\<close>, \<open>de\<close> and \<open>rm\<close> are the outcomes of \<open>logout\<close>, \<open>destroy\<close> and \<open>fs.remove\<close>.\<close>

definition deleteSession :: "userId \<Rightarrow> unit outcome \<Rightarrow> unit outcome \<Rightarrow> unit outcome \<Rightarrow> unit act" where
  "deleteSession userId lo de rm s =
     steps
       [(\<lambda>s1. case clients s userId of
                Some client \<Rightarrow>
                  steps [del_logout client lo, del_destroy client de,
                         exec (clients_delete userId)] s1
              | None \<Rightarrow> (Ok (), s1)),
        del_files userId rm,
        exec (emitToUser userId (DisconnectedEv ''logout''))] s"

section \<open>init: the recovery sweep\<close>

text \<open>
  One turn of the loop. The call of \<open>startClient\<close> is not awaited and the promise it returns
  is dropped: the loop goes on as soon as the call reaches its \<open>await\<close> or throws, and a
  rejection of that promise reaches no \<open>catch\<close> of the manager.
\<close>

definition restore_item :: "string \<Rightarrow> unit act" where
  "restore_item item s =
     (if startsWith item ''session-'' then
        (let userId = replace_first item ''session-'' []
         in steps
              [exec (console_log (''Found persisted session for: '' @ userId @ '', restoring...'')),
               exec (\<lambda>s1. snd (startClient_sync userId s1))] s)
      else (Ok (), s))"

text \<open>\<open>en\<close> and \<open>rd\<close> are the outcomes of \<open>fs.ensureDir\<close> and \<open>fs.readdir\<close>.\<close>

definition init :: "unit outcome \<Rightarrow> unit outcome \<Rightarrow> unit act" where
  "init en rd s =
     steps
       [exec (console_log ''Initializing ClientManager...''),
        await en,
        try_catch (\<lambda>s1. steps (await rd # map restore_item (dirs s1)) s1)
          (\<lambda>e. exec (console_error ''Error restoring sessions:''))] s"

section \<open>Interleavings\<close>

text \<open>
  The process runs one piece of code at a time and changes hands only at an \<open>await\<close> or
  between events. An action is one such piece, with the values it closed over; a run is any
  sequence of actions. The pieces of \<open>deleteSession\<close> are cut where the registry is read or
  written, the call of an outside service and the end of its promise taken together.
\<close>

datatype action =
    CallStart userId
  | InitSettles userId "unit outcome"
  | Emits handle client_event
  | DelLogout handle "unit outcome"
  | DelDestroy handle "unit outcome"
  | DelUnregister userId
  | DelFiles userId "unit outcome"
  | DelEmit userId
  | InitSweep "unit outcome" "unit outcome"

fun step :: "action \<Rightarrow> mgr \<Rightarrow> mgr" where
  "step (CallStart userId) s = snd (startClient_sync userId s)"
| "step (InitSettles userId out) s = snd (startClient_settle userId out s)"
| "step (Emits client ev) s =
     (case handler_user s client of None \<Rightarrow> s | Some userId \<Rightarrow> snd (on_event userId ev s))"
| "step (DelLogout client lo) s = snd (del_logout client lo s)"
| "step (DelDestroy client de) s = snd (del_destroy client de s)"
| "step (DelUnregister userId) s = clients_delete userId s"
| "step (DelFiles userId rm) s = snd (del_files userId rm s)"
| "step (DelEmit userId) s = emitToUser userId (DisconnectedEv ''logout'') s"
| "step (InitSweep en rd) s = snd (init en rd s)"

fun run :: "action list \<Rightarrow> mgr \<Rightarrow> mgr" where
  "run [] s = s"
| "run (a # as) s = run as (step a s)"

section \<open>The route POST /config/webhook and the column default\<close>

record webhook_request =
  req_webhook_url :: "string option"
  req_webhook_trigger :: "string option"

text \<open>The row the handler passes to \<open>upsert\<close>.\<close>

definition webhook_upsert_row :: "userId \<Rightarrow> webhook_request \<Rightarrow> userId \<times> config" where
  "webhook_upsert_row user_id body =
     (user_id, \<lparr>webhook_url = req_webhook_url body,
                webhook_trigger = Some (or_default (req_webhook_trigger body) ''incoming'')\<rparr>)"

text \<open>
  The migration \<open>ADD COLUMN IF NOT EXISTS webhook_trigger TEXT DEFAULT 'incoming'\<close>. A row
  maps column names to nullable text; a table has its columns with their defaults and its
  rows. Adding the column fills the rows there are; an insert that leaves a column out
  takes the column's default.
\<close>

type_synonym row = "string \<rightharpoonup> string option"

record table =
  columns :: "(string \<times> string option) list"
  rows :: "row list"

definition add_column_if_not_exists :: "string \<Rightarrow> string option \<Rightarrow> table \<Rightarrow> table" where
  "add_column_if_not_exists c d t =
     (if c \<in> set (map fst (columns t)) then t
      else \<lparr>columns = columns t @ [(c, d)], rows = map (\<lambda>r. r(c \<mapsto> d)) (rows t)\<rparr>)"

definition add_webhook_trigger :: "table \<Rightarrow> table" where
  "add_webhook_trigger = add_column_if_not_exists ''webhook_trigger'' (Some ''incoming'')"

definition insert_row :: "row \<Rightarrow> table \<Rightarrow> table" where
  "insert_row given t =
     t\<lparr>rows := rows t @
        [\<lambda>c. case given c of
                Some v \<Rightarrow> Some v
              | None \<Rightarrow> map_of (columns t) c]\<rparr>"

text \<open>The two columns \<open>dispatchWebhook\<close> selects from a row.\<close>

definition select_config :: "row \<Rightarrow> config" where
  "select_config r =
     \<lparr>webhook_url = (case r ''webhook_url'' of Some v \<Rightarrow> v | None \<Rightarrow> None),
      webhook_trigger = (case r ''webhook_trigger'' of Some v \<Rightarrow> v | None \<Rightarrow> None)\<rparr>"


section \<open>Invariants\<close>

text \<open>
  Clients are numbered in the order of their construction, each was constructed for a user
  the constructor accepts, and a registered client was constructed for the user it is
  registered for.
\<close>

definition handles_wf :: "mgr \<Rightarrow> bool" where
  "handles_wf s =
     (map fst (created s) = [0..<length (created s)] \<and>
      list_all (\<lambda>p. valid_clientId (snd p)) (created s) \<and>
      (\<forall>userId client. clients s userId = Some client \<longrightarrow> (client, userId) \<in> set (created s)))"

text \<open>
  \<open>extends s s'\<close>: from \<open>s\<close> to \<open>s'\<close> clients were only constructed, initialized and
  registered for users that had none, and the QR cache was left alone.
\<close>

definition extends :: "mgr \<Rightarrow> mgr \<Rightarrow> bool" where
  "extends s s' =
     ((\<exists>cs. created s' = created s @ cs) \<and>
      (\<exists>ns. initialized s' = initialized s @ ns) \<and>
      lastQr s' = lastQr s \<and>
      (\<forall>userId. clients s' userId = clients s userId \<or>
         (clients s userId = None \<and>
          (\<exists>client. clients s' userId = Some client \<and> length (created s) \<le> client \<and>
             (client, userId) \<in> set (created s') \<and> client \<in> set (initialized s')))))"

section \<open>Properties of webhook dispatch\<close>

lemma dispatchWebhook_returns: "fst (dispatchWebhook userId m lk po s) = Ok ()"
  by (auto simp: dispatchWebhook_def dispatch_body_def try_catch_def Let_def axios_post_def
      await_def exec_def split: outcome.splits prod.splits res.splits)

lemma dispatchWebhook_frame:
  "(snd (dispatchWebhook userId m lk po s))\<lparr>posts := posts s, console := console s\<rparr> = s"
  by (auto simp: dispatchWebhook_def dispatch_body_def try_catch_def Let_def axios_post_def
      await_def exec_def console_log_def console_error_def
      split: outcome.splits prod.splits res.splits)

lemma dispatchWebhook_silent:
  "error r \<noteq> None \<or> data r = None \<or> falsy (webhook_url (the (data r))) \<Longrightarrow>
   dispatchWebhook userId m (Resolves r) po s = (Ok (), s)"
  by (auto simp: dispatchWebhook_def dispatch_body_def try_catch_def)

lemma dispatchWebhook_lookup_rejects:
  "dispatchWebhook userId m (Rejects e) po s =
   (Ok (), console_error (''Error sending webhook for '' @ userId) s)"
  by (simp add: dispatchWebhook_def dispatch_body_def try_catch_def exec_def)


lemma dispatchWebhook_delivers:
  assumes "error r = None" "data r = Some d" "webhook_url d = Some url" "url \<noteq> []"
  shows "dispatchWebhook userId m (Resolves r) po s =
     (if or_default (webhook_trigger d) ''incoming'' = ''incoming'' \<and> msg_fromMe m then (Ok (), s)
      else if or_default (webhook_trigger d) ''incoming'' = ''outgoing'' \<and> \<not> msg_fromMe m then (Ok (), s)
      else (Ok (),
        (case po of Resolves _ \<Rightarrow> (\<lambda>x. x) | Rejects e \<Rightarrow> console_error (''Error sending webhook for '' @ userId))
          ((console_log (''Sending webhook to '' @ url @ '' for '' @ userId) s)
             \<lparr>posts := posts s @ [(url, build_payload m)]\<rparr>)))"
  using assms
  by (auto simp: dispatchWebhook_def dispatch_body_def try_catch_def Let_def axios_post_def
      await_def exec_def console_log_def console_error_def falsy_def
      split: outcome.splits prod.splits res.splits)


text \<open>
  C5. With a webhook URL configured: trigger \<open>incoming\<close> posts nothing for an outbound
  message, trigger \<open>outgoing\<close> posts nothing for an inbound message, and trigger \<open>both\<close>
  posts the payload of the message, whatever its direction.
\<close>

theorem dispatchWebhook_trigger_filter:
  assumes "error r = None" and "data r = Some d" and "webhook_url d = Some url" and "url \<noteq> []"
  shows "(webhook_trigger d = Some ''incoming'' \<and> msg_fromMe m \<longrightarrow>
            posts (snd (dispatchWebhook userId m (Resolves r) po s)) = posts s) \<and>
         (webhook_trigger d = Some ''outgoing'' \<and> \<not> msg_fromMe m \<longrightarrow>
            posts (snd (dispatchWebhook userId m (Resolves r) po s)) = posts s) \<and>
         (webhook_trigger d = Some ''both'' \<longrightarrow>
            posts (snd (dispatchWebhook userId m (Resolves r) po s)) =
              posts s @ [(url, build_payload m)])"
  by (auto simp: dispatchWebhook_delivers [OF assms] or_default_def console_log_def
      console_error_def split: outcome.splits)

theorem dispatchWebhook_trigger_filter_witness:
  "posts (snd (dispatchWebhook ''u1''
      \<lparr>msg_from = ''598@c.us'', msg_to = ''me@c.us'', msg_body = ''hi'', msg_type = ''chat'',
        msg_timestamp = 7, msg_notifyName = None, msg_hasMedia = False, msg_id = ''m1'',
        msg_fromMe = False\<rparr>
      (Resolves \<lparr>data = Some \<lparr>webhook_url = Some ''http://hook'', webhook_trigger = Some ''both''\<rparr>,
                 error = None\<rparr>)
      (Resolves ()) (new_mgr []))) =
   [(''http://hook'',
     \<lparr>p_from = ''598@c.us'', p_to = ''me@c.us'', p_body = ''hi'', p_type = ''chat'',
      p_timestamp = 7, p_notifyName = [], p_hasMedia = False, p_isGroup = False, p_id = ''m1'',
      p_fromMe = False\<rparr>)]"
  using dispatchWebhook_trigger_filter
    [where r = "\<lparr>data = Some \<lparr>webhook_url = Some ''http://hook'', webhook_trigger = Some ''both''\<rparr>,
                  error = None\<rparr>"
       and d = "\<lparr>webhook_url = Some ''http://hook'', webhook_trigger = Some ''both''\<rparr>"
       and url = "''http://hook''" and userId = "''u1''" and po = "Resolves ()"
       and s = "new_mgr []"
       and m = "\<lparr>msg_from = ''598@c.us'', msg_to = ''me@c.us'', msg_body = ''hi'',
                  msg_type = ''chat'', msg_timestamp = 7, msg_notifyName = None,
                  msg_hasMedia = False, msg_id = ''m1'', msg_fromMe = False\<rparr>"]
  by (simp add: new_mgr_def build_payload_def or_default_def startsWith_def)

text \<open>
  C6, as the claim states it, fails: a lookup that resolves with an error ends the dispatch
  at the guard, and nothing is written to the console.
\<close>

theorem dispatchWebhook_lookup_error_not_logged:
  "console (snd (dispatchWebhook ''u1''
      \<lparr>msg_from = ''598@c.us'', msg_to = ''me@c.us'', msg_body = ''hi'', msg_type = ''chat'',
        msg_timestamp = 7, msg_notifyName = None, msg_hasMedia = False, msg_id = ''m1'',
        msg_fromMe = False\<rparr>
      (Resolves \<lparr>data = None, error = Some ''connection refused''\<rparr>)
      (Resolves ()) (new_mgr []))) = []"
  by (simp add: dispatchWebhook_def dispatch_body_def try_catch_def new_mgr_def)

text \<open>
  C6, amended. \<open>dispatchWebhook\<close> never raises and changes nothing of the manager but the
  list of posts and the console. A lookup that resolves with an error, with no row or with no
  URL ends it silently: no post, no console line. A lookup that rejects is logged as an error,
  with no post. A post that rejects is logged as an error after the one attempt.
\<close>

theorem dispatchWebhook_failures_swallowed:
  "fst (dispatchWebhook userId m lk po s) = Ok () \<and>
   (snd (dispatchWebhook userId m lk po s))\<lparr>posts := posts s, console := console s\<rparr> = s \<and>
   (\<forall>r. lk = Resolves r \<and> (error r \<noteq> None \<or> data r = None \<or> falsy (webhook_url (the (data r)))) \<longrightarrow>
        snd (dispatchWebhook userId m lk po s) = s) \<and>
   (\<forall>e. lk = Rejects e \<longrightarrow>
        snd (dispatchWebhook userId m lk po s) =
          s\<lparr>console := console s @ [(Err, ''Error sending webhook for '' @ userId)]\<rparr>) \<and>
   (\<forall>e. po = Rejects e \<and> posts (snd (dispatchWebhook userId m lk po s)) \<noteq> posts s \<longrightarrow>
        (\<exists>url. posts (snd (dispatchWebhook userId m lk po s)) = posts s @ [(url, build_payload m)] \<and>
           console (snd (dispatchWebhook userId m lk po s)) =
             console s @ [(Info, ''Sending webhook to '' @ url @ '' for '' @ userId),
                          (Err, ''Error sending webhook for '' @ userId)]))"
proof (intro conjI allI impI)
  show "fst (dispatchWebhook userId m lk po s) = Ok ()"
    by (rule dispatchWebhook_returns)
  show "(snd (dispatchWebhook userId m lk po s))\<lparr>posts := posts s, console := console s\<rparr> = s"
    by (rule dispatchWebhook_frame)
next
  fix r
  assume "lk = Resolves r \<and> (error r \<noteq> None \<or> data r = None \<or> falsy (webhook_url (the (data r))))"
  then show "snd (dispatchWebhook userId m lk po s) = s"
    by (simp add: dispatchWebhook_silent)
next
  fix e
  assume "lk = Rejects e"
  then show "snd (dispatchWebhook userId m lk po s) =
      s\<lparr>console := console s @ [(Err, ''Error sending webhook for '' @ userId)]\<rparr>"
    by (simp add: dispatchWebhook_lookup_rejects console_error_def)
next
  fix e
  assume a: "po = Rejects e \<and> posts (snd (dispatchWebhook userId m lk po s)) \<noteq> posts s"
  show "\<exists>url. posts (snd (dispatchWebhook userId m lk po s)) = posts s @ [(url, build_payload m)] \<and>
           console (snd (dispatchWebhook userId m lk po s)) =
             console s @ [(Info, ''Sending webhook to '' @ url @ '' for '' @ userId),
                          (Err, ''Error sending webhook for '' @ userId)]"
  proof (cases lk)
    case (Rejects x)
    with a show ?thesis
      by (simp add: dispatchWebhook_lookup_rejects console_error_def)
  next
    case (Resolves r)
    show ?thesis
    proof (cases "error r \<noteq> None \<or> data r = None \<or> falsy (webhook_url (the (data r)))")
      case True
      with a Resolves show ?thesis
        by (simp add: dispatchWebhook_silent)
    next
      case False
      then obtain d url where d: "error r = None" "data r = Some d" "webhook_url d = Some url" "url \<noteq> []"
        by (auto simp: falsy_def split: option.splits)
      from a Resolves show ?thesis
        by (auto simp: dispatchWebhook_delivers [OF d] console_log_def console_error_def
            split: if_splits)
    qed
  qed
qed

theorem dispatchWebhook_failures_swallowed_witness:
  "dispatchWebhook ''u1''
      \<lparr>msg_from = ''598@c.us'', msg_to = ''me@c.us'', msg_body = ''hi'', msg_type = ''chat'',
        msg_timestamp = 7, msg_notifyName = None, msg_hasMedia = False, msg_id = ''m1'',
        msg_fromMe = False\<rparr>
      (Rejects ''fetch failed'') (Resolves ()) (new_mgr []) =
   (Ok (), (new_mgr [])\<lparr>console := [(Err, ''Error sending webhook for u1'')]\<rparr>)"
  using dispatchWebhook_failures_swallowed
    [where lk = "Rejects ''fetch failed''" and userId = "''u1''" and po = "Resolves ()"
       and s = "new_mgr []"
       and m = "\<lparr>msg_from = ''598@c.us'', msg_to = ''me@c.us'', msg_body = ''hi'',
                  msg_type = ''chat'', msg_timestamp = 7, msg_notifyName = None,
                  msg_hasMedia = False, msg_id = ''m1'', msg_fromMe = False\<rparr>"]
  by (simp add: new_mgr_def prod_eq_iff)


section \<open>The default trigger\<close>

lemma dispatchWebhook_default_trigger:
  "falsy t \<Longrightarrow>
   dispatchWebhook userId m (Resolves \<lparr>data = Some \<lparr>webhook_url = w, webhook_trigger = t\<rparr>, error = e\<rparr>) po s =
   dispatchWebhook userId m
     (Resolves \<lparr>data = Some \<lparr>webhook_url = w, webhook_trigger = Some ''incoming''\<rparr>, error = e\<rparr>) po s"
proof -
  assume "falsy t"
  then have "dispatch_body userId m
       (Resolves \<lparr>data = Some \<lparr>webhook_url = w, webhook_trigger = t\<rparr>, error = e\<rparr>) po s =
     dispatch_body userId m
       (Resolves \<lparr>data = Some \<lparr>webhook_url = w, webhook_trigger = Some ''incoming''\<rparr>, error = e\<rparr>) po s"
    by (auto simp: dispatch_body_def falsy_def or_default_def split: option.splits)
  then show ?thesis
    by (simp add: dispatchWebhook_def try_catch_def)
qed

text \<open>
  C9. A stored trigger that is null or empty is dispatched exactly as \<open>incoming\<close>: with a URL
  configured an outbound message is dropped and an inbound one is posted. The row the route
  \<open>POST /config/webhook\<close> upserts has trigger \<open>incoming\<close> when the request gives none, and
  after the migration a row that was there and a row inserted without the column read
  \<open>incoming\<close>.
\<close>

theorem webhook_trigger_defaults_to_incoming:
  "(falsy t \<longrightarrow>
      dispatchWebhook userId m
        (Resolves \<lparr>data = Some \<lparr>webhook_url = w, webhook_trigger = t\<rparr>, error = e\<rparr>) po s =
      dispatchWebhook userId m
        (Resolves \<lparr>data = Some \<lparr>webhook_url = w, webhook_trigger = Some ''incoming''\<rparr>, error = e\<rparr>) po s) \<and>
   (falsy t \<and> url \<noteq> [] \<and> msg_fromMe m \<longrightarrow>
      snd (dispatchWebhook userId m
        (Resolves \<lparr>data = Some \<lparr>webhook_url = Some url, webhook_trigger = t\<rparr>, error = None\<rparr>) po s) = s) \<and>
   (falsy t \<and> url \<noteq> [] \<and> \<not> msg_fromMe m \<longrightarrow>
      posts (snd (dispatchWebhook userId m
        (Resolves \<lparr>data = Some \<lparr>webhook_url = Some url, webhook_trigger = t\<rparr>, error = None\<rparr>) po s)) =
      posts s @ [(url, build_payload m)]) \<and>
   (falsy (req_webhook_trigger body) \<longrightarrow>
      webhook_trigger (snd (webhook_upsert_row user_id body)) = Some ''incoming'') \<and>
   (''webhook_trigger'' \<notin> set (map fst (columns tb)) \<longrightarrow>
      (\<forall>r \<in> set (rows (add_webhook_trigger tb)).
          webhook_trigger (select_config r) = Some ''incoming'') \<and>
      (given ''webhook_trigger'' = None \<longrightarrow>
          webhook_trigger (select_config (last (rows (insert_row given (add_webhook_trigger tb))))) =
            Some ''incoming''))"
proof (intro conjI impI)
  assume "falsy t"
  then show "dispatchWebhook userId m
        (Resolves \<lparr>data = Some \<lparr>webhook_url = w, webhook_trigger = t\<rparr>, error = e\<rparr>) po s =
      dispatchWebhook userId m
        (Resolves \<lparr>data = Some \<lparr>webhook_url = w, webhook_trigger = Some ''incoming''\<rparr>, error = e\<rparr>) po s"
    by (rule dispatchWebhook_default_trigger)
next
  assume "falsy t \<and> url \<noteq> [] \<and> msg_fromMe m"
  then show "snd (dispatchWebhook userId m
        (Resolves \<lparr>data = Some \<lparr>webhook_url = Some url, webhook_trigger = t\<rparr>, error = None\<rparr>) po s) = s"
    by (auto simp: dispatchWebhook_def dispatch_body_def try_catch_def falsy_def or_default_def
        split: option.splits)
next
  assume "falsy t \<and> url \<noteq> [] \<and> \<not> msg_fromMe m"
  then show "posts (snd (dispatchWebhook userId m
        (Resolves \<lparr>data = Some \<lparr>webhook_url = Some url, webhook_trigger = t\<rparr>, error = None\<rparr>) po s)) =
      posts s @ [(url, build_payload m)]"
    by (auto simp: dispatchWebhook_def dispatch_body_def try_catch_def falsy_def or_default_def
        axios_post_def await_def exec_def console_log_def console_error_def
        split: option.splits outcome.splits)
next
  assume "falsy (req_webhook_trigger body)"
  then show "webhook_trigger (snd (webhook_upsert_row user_id body)) = Some ''incoming''"
    by (auto simp: webhook_upsert_row_def falsy_def or_default_def split: option.splits)
next
  assume c: "''webhook_trigger'' \<notin> set (map fst (columns tb))"
  then show "\<forall>r \<in> set (rows (add_webhook_trigger tb)).
          webhook_trigger (select_config r) = Some ''incoming''"
    by (auto simp: add_webhook_trigger_def add_column_if_not_exists_def select_config_def)
  assume "given ''webhook_trigger'' = None"
  with c show "webhook_trigger (select_config (last (rows (insert_row given (add_webhook_trigger tb))))) =
            Some ''incoming''"
    by (simp add: add_webhook_trigger_def add_column_if_not_exists_def select_config_def
        insert_row_def map_add_def map_of_eq_None_iff [THEN iffD2])
qed

theorem webhook_trigger_defaults_to_incoming_witness:
  "dispatchWebhook ''u1''
      \<lparr>msg_from = ''me@c.us'', msg_to = ''598@c.us'', msg_body = ''hi'', msg_type = ''chat'',
        msg_timestamp = 7, msg_notifyName = None, msg_hasMedia = False, msg_id = ''m1'',
        msg_fromMe = True\<rparr>
      (Resolves \<lparr>data = Some \<lparr>webhook_url = Some ''http://hook'', webhook_trigger = Some []\<rparr>,
                 error = None\<rparr>)
      (Resolves ()) (new_mgr []) = (Ok (), new_mgr []) \<and>
   webhook_upsert_row ''u1'' \<lparr>req_webhook_url = Some ''http://hook'', req_webhook_trigger = None\<rparr> =
     (''u1'', \<lparr>webhook_url = Some ''http://hook'', webhook_trigger = Some ''incoming''\<rparr>) \<and>
   columns (add_webhook_trigger \<lparr>columns = [(''webhook_url'', None)], rows = []\<rparr>) =
     [(''webhook_url'', None), (''webhook_trigger'', Some ''incoming'')]"
  using webhook_trigger_defaults_to_incoming
    [where t = "Some []" and url = "''http://hook''" and w = "Some ''http://hook''" and e = None
       and userId = "''u1''" and po = "Resolves ()" and s = "new_mgr []"
       and m = "\<lparr>msg_from = ''me@c.us'', msg_to = ''598@c.us'', msg_body = ''hi'',
                  msg_type = ''chat'', msg_timestamp = 7, msg_notifyName = None,
                  msg_hasMedia = False, msg_id = ''m1'', msg_fromMe = True\<rparr>"
       and body = "\<lparr>req_webhook_url = Some ''http://hook'', req_webhook_trigger = None\<rparr>"
       and user_id = "''u1''"
       and tb = "\<lparr>columns = [(''webhook_url'', None)], rows = []\<rparr>"
       and given = "Map.empty"]
  by (simp add: falsy_def dispatchWebhook_def dispatch_body_def try_catch_def
      webhook_upsert_row_def or_default_def add_webhook_trigger_def add_column_if_not_exists_def)

section \<open>Starting a client\<close>

lemma startClient_sync_existing:
  "clients s userId = Some existing \<Longrightarrow>
   startClient_sync userId s = (Existing existing, emitToUser userId (Status ''CONNECTED'') s)"
  by (simp add: startClient_sync_def)

lemma startClient_sync_refused:
  "clients s userId = None \<Longrightarrow> \<not> valid_clientId userId \<Longrightarrow>
   startClient_sync userId s =
     (Threw ''Invalid clientId. Only alphanumeric characters, underscores and hyphens are allowed.'',
      s\<lparr>emitted := emitted s @ [(userId, Status ''INITIALIZING'')],
        console := console s @ [(Info, ''Starting client for '' @ userId)]\<rparr>)"
  by (simp add: startClient_sync_def new_Client_def valid_clientId_def console_log_def emitToUser_def)

lemma startClient_sync_absent:
  "clients s userId = None \<Longrightarrow> valid_clientId userId \<Longrightarrow>
   startClient_sync userId s =
     (Fresh (length (created s)),
      s\<lparr>clients := (clients s)(userId \<mapsto> length (created s)),
        created := created s @ [(length (created s), userId)],
        initialized := initialized s @ [length (created s)],
        emitted := emitted s @ [(userId, Status ''INITIALIZING'')],
        console := console s @ [(Info, ''Starting client for '' @ userId)]\<rparr>)"
  by (simp add: startClient_sync_def new_Client_def valid_clientId_def console_log_def emitToUser_def clients_set_def
      call_initialize_def)

lemma startClient_settle_resolves: "startClient_settle userId (Resolves x) s = (Ok (), s)"
  by (simp add: startClient_settle_def try_catch_def await_def)

lemma startClient_settle_rejects:
  "startClient_settle userId (Rejects e) s =
     (Ok (), s\<lparr>emitted := emitted s @ [(userId, ErrorEv ''Failed to initialize'')],
              console := console s @ [(Err, ''Failed to initialize client for '' @ userId)]\<rparr>)"
  by (simp add: startClient_settle_def try_catch_def await_def exec_def console_error_def
      emitToUser_def)

text \<open>
  C2. When the registry holds a client for the user, \<open>startClient\<close> returns that client and
  changes nothing but the emissions, to which it adds a status \<open>CONNECTED\<close> for the user:
  no client is constructed, none is stored, \<open>initialize\<close> is not called.
\<close>

theorem startClient_existing_idempotent:
  assumes "clients s userId = Some existing"
  shows "startClient userId out s =
           (Ok existing, s\<lparr>emitted := emitted s @ [(userId, Status ''CONNECTED'')]\<rparr>)"
  using assms by (simp add: startClient_def startClient_sync_existing emitToUser_def)

theorem startClient_existing_idempotent_witness:
  "startClient ''u1'' (Resolves ()) ((new_mgr [])\<lparr>clients := [''u1'' \<mapsto> 0], created := [(0, ''u1'')]\<rparr>) =
     (Ok 0, (new_mgr [])\<lparr>clients := [''u1'' \<mapsto> 0], created := [(0, ''u1'')],
                          emitted := [(''u1'', Status ''CONNECTED'')]\<rparr>)"
  using startClient_existing_idempotent
    [where s = "(new_mgr [])\<lparr>clients := [''u1'' \<mapsto> 0], created := [(0, ''u1'')]\<rparr>"
       and userId = "''u1''" and existing = 0 and out = "Resolves ()"]
  by (simp add: new_mgr_def)

text \<open>
  C10. When \<open>startClient\<close> calls \<open>initialize\<close> (the registry holds no client for the user
  and the constructor accepts the user as \<open>clientId\<close>) and \<open>initialize\<close> rejects,
  \<open>startClient\<close> returns the client it constructed, without raising; the client stays in the
  registry; a status \<open>INITIALIZING\<close> and an error \<open>Failed to initialize\<close> go to the user. The
  next \<open>startClient\<close> for the user returns the same client, emits a status \<open>CONNECTED\<close>,
  and neither constructs a client nor calls \<open>initialize\<close>.
\<close>

theorem startClient_initialize_fails:
  assumes "clients s userId = None" and "valid_clientId userId"
  shows "fst (startClient userId (Rejects e) s) = Ok (length (created s)) \<and>
         clients (snd (startClient userId (Rejects e) s)) userId = Some (length (created s)) \<and>
         emitted (snd (startClient userId (Rejects e) s)) =
           emitted s @ [(userId, Status ''INITIALIZING''), (userId, ErrorEv ''Failed to initialize'')] \<and>
         initialized (snd (startClient userId (Rejects e) s)) = initialized s @ [length (created s)] \<and>
         startClient userId out (snd (startClient userId (Rejects e) s)) =
           (Ok (length (created s)),
            (snd (startClient userId (Rejects e) s))
              \<lparr>emitted := emitted s @ [(userId, Status ''INITIALIZING''),
                   (userId, ErrorEv ''Failed to initialize''), (userId, Status ''CONNECTED'')]\<rparr>)"
  using assms
  by (simp add: startClient_def startClient_sync_absent startClient_settle_rejects
      startClient_sync_existing emitToUser_def)

theorem startClient_initialize_fails_witness:
  "startClient ''u1'' (Rejects ''browser crashed'') (new_mgr []) =
     (Ok 0, (new_mgr [])\<lparr>clients := [''u1'' \<mapsto> 0], created := [(0, ''u1'')], initialized := [0],
        emitted := [(''u1'', Status ''INITIALIZING''), (''u1'', ErrorEv ''Failed to initialize'')],
        console := [(Info, ''Starting client for u1''), (Err, ''Failed to initialize client for u1'')]\<rparr>)"
  using startClient_initialize_fails
    [where s = "new_mgr []" and userId = "''u1''" and e = "''browser crashed''" and out = "Resolves ()"]
  by (simp add: new_mgr_def startClient_def startClient_sync_absent startClient_settle_rejects
      valid_clientId_def)


section \<open>Tearing a session down\<close>

lemma del_logout_eq:
  "del_logout client lo s =
     (Ok (), s\<lparr>loggedOut := loggedOut s @ [client],
              console := console s @ (if failed lo then [(Warn, ''Logout failed'')] else [])\<rparr>)"
  by (simp add: del_logout_def try_catch_def client_logout_def await_def exec_def
      console_warn_def failed_def split: outcome.splits)

lemma del_destroy_eq:
  "del_destroy client de s =
     (Ok (), s\<lparr>destroyed := destroyed s @ [client],
              console := console s @ (if failed de then [(Warn, ''Destroy failed'')] else [])\<rparr>)"
  by (simp add: del_destroy_def try_catch_def client_destroy_def await_def exec_def
      console_warn_def failed_def split: outcome.splits)

lemma del_files_eq:
  "del_files userId rm s =
     (Ok (),
      if pathExists s (sessionDir userId) then
        if failed rm then s\<lparr>console := console s @ [(Err, ''Could not delete session files'')]\<rparr>
        else s\<lparr>dirs := removeAll (sessionDir userId) (dirs s),
               console := console s @ [(Info, ''Session files deleted for '' @ userId)]\<rparr>
      else s)"
  by (simp add: del_files_def try_catch_def fs_remove_def exec_def console_log_def
      console_error_def failed_def split: outcome.splits)

lemma deleteSession_registered:
  "clients s userId = Some client \<Longrightarrow>
   deleteSession userId lo de rm s =
     (Ok (), emitToUser userId (DisconnectedEv ''logout'')
        (snd (del_files userId rm (clients_delete userId
           (snd (del_destroy client de (snd (del_logout client lo s))))))))"
  by (simp add: deleteSession_def del_logout_eq del_destroy_eq del_files_eq exec_def)

lemma deleteSession_unregistered:
  "clients s userId = None \<Longrightarrow>
   deleteSession userId lo de rm s =
     (Ok (), emitToUser userId (DisconnectedEv ''logout'') (snd (del_files userId rm s)))"
  by (simp add: deleteSession_def del_files_eq exec_def)

text \<open>
  C7. \<open>deleteSession\<close> never raises, whatever the outcomes of \<open>logout\<close>, \<open>destroy\<close> and
  \<open>fs.remove\<close>. With a client registered, \<open>logout\<close> and \<open>destroy\<close> are both called on
  it, a failure of either is a warning on the console, and the user leaves the registry. A
  failed removal of the session files is an error line on the console and leaves the files.
  The \<open>disconnected\<close> event with reason \<open>logout\<close> goes out at the end in every case.
\<close>

theorem deleteSession_best_effort:
  "fst (deleteSession userId lo de rm s) = Ok () \<and>
   clients (snd (deleteSession userId lo de rm s)) = (clients s)(userId := None) \<and>
   (\<forall>client. clients s userId = Some client \<longrightarrow>
      loggedOut (snd (deleteSession userId lo de rm s)) = loggedOut s @ [client] \<and>
      destroyed (snd (deleteSession userId lo de rm s)) = destroyed s @ [client]) \<and>
   console (snd (deleteSession userId lo de rm s)) =
     console s @
     (if clients s userId = None then []
      else (if failed lo then [(Warn, ''Logout failed'')] else []) @
           (if failed de then [(Warn, ''Destroy failed'')] else [])) @
     (if pathExists s (sessionDir userId) then
        if failed rm then [(Err, ''Could not delete session files'')]
        else [(Info, ''Session files deleted for '' @ userId)]
      else []) \<and>
   dirs (snd (deleteSession userId lo de rm s)) =
     (if pathExists s (sessionDir userId) \<and> \<not> failed rm
      then removeAll (sessionDir userId) (dirs s) else dirs s) \<and>
   emitted (snd (deleteSession userId lo de rm s)) =
     emitted s @ [(userId, DisconnectedEv ''logout'')]"
proof (cases "clients s userId")
  case None
  then show ?thesis
    by (simp add: deleteSession_unregistered del_files_eq emitToUser_def fun_upd_idem)
next
  case (Some client)
  then show ?thesis
    by (simp add: deleteSession_registered del_logout_eq del_destroy_eq del_files_eq
        emitToUser_def clients_delete_def pathExists_def)
qed

theorem deleteSession_best_effort_witness:
  "deleteSession ''u1'' (Rejects ''not logged in'') (Rejects ''no browser'') (Rejects ''EBUSY'')
     ((new_mgr [''session-u1''])\<lparr>clients := [''u1'' \<mapsto> 0], created := [(0, ''u1'')]\<rparr>) =
   (Ok (), (new_mgr [''session-u1''])
      \<lparr>clients := [''u1'' \<mapsto> 0](''u1'' := None), created := [(0, ''u1'')], loggedOut := [0], destroyed := [0],
        emitted := [(''u1'', DisconnectedEv ''logout'')],
        console := [(Warn, ''Logout failed''), (Warn, ''Destroy failed''),
                    (Err, ''Could not delete session files'')]\<rparr>)"
  using deleteSession_best_effort
    [where userId = "''u1''" and lo = "Rejects ''not logged in''" and de = "Rejects ''no browser''"
       and rm = "Rejects ''EBUSY''"
       and s = "(new_mgr [''session-u1''])\<lparr>clients := [''u1'' \<mapsto> 0], created := [(0, ''u1'')]\<rparr>"]
  by (simp add: new_mgr_def deleteSession_registered del_logout_eq del_destroy_eq del_files_eq
      emitToUser_def clients_delete_def pathExists_def sessionDir_def failed_def)


section \<open>The handlers and the sweep, spelled out\<close>

lemma on_event_qr:
  "on_event userId (EvQr qr) s =
     (Ok (), s\<lparr>lastQr := (lastQr s)(userId \<mapsto> qr),
              emitted := emitted s @ [(userId, QrCode qr)],
              console := console s @ [(Info, ''QR received for '' @ userId)]\<rparr>)"
  by (simp add: exec_def console_log_def lastQr_set_def emitToUser_def)

lemma on_event_ready:
  "on_event userId EvReady s =
     (Ok (), s\<lparr>lastQr := (lastQr s)(userId := None),
              emitted := emitted s @ [(userId, ReadyEv), (userId, Status ''CONNECTED'')],
              console := console s @ [(Info, ''Client '' @ userId @ '' is ready!'')]\<rparr>)"
  by (simp add: exec_def console_log_def lastQr_delete_def emitToUser_def)

lemma on_event_auth_failure:
  "on_event userId (EvAuthFailure msg) s =
     (Ok (), s\<lparr>emitted := emitted s @ [(userId, ErrorEv ''Auth failure'')],
              console := console s @ [(Err, ''Auth failure for '' @ userId @ '': '')]\<rparr>)"
  by (simp add: exec_def console_error_def emitToUser_def)

lemma on_event_disconnected:
  "on_event userId (EvDisconnected reason) s =
     (Ok (), s\<lparr>clients := (clients s)(userId := None),
              emitted := emitted s @ [(userId, DisconnectedEv reason)],
              console := console s @
                [(Info, ''Client '' @ userId @ '' disconnected: '' @ reason @ '' '')]\<rparr>)"
  by (simp add: exec_def console_log_def clients_delete_def emitToUser_def)

lemma on_event_message_fields:
  "clients (snd (on_event userId (EvMessage m lk po) s)) = clients s"
  "lastQr (snd (on_event userId (EvMessage m lk po) s)) = lastQr s"
  "created (snd (on_event userId (EvMessage m lk po) s)) = created s"
  "initialized (snd (on_event userId (EvMessage m lk po) s)) = initialized s"
  "emitted (snd (on_event userId (EvMessage m lk po) s)) = emitted s"
proof -
  let ?s' = "snd (dispatchWebhook userId m lk po s)"
  have e: "?s'\<lparr>posts := posts s, console := console s\<rparr> = s"
    by (rule dispatchWebhook_frame)
  show "clients (snd (on_event userId (EvMessage m lk po) s)) = clients s"
    using arg_cong [OF e, of clients] by simp
  show "lastQr (snd (on_event userId (EvMessage m lk po) s)) = lastQr s"
    using arg_cong [OF e, of lastQr] by simp
  show "created (snd (on_event userId (EvMessage m lk po) s)) = created s"
    using arg_cong [OF e, of created] by simp
  show "initialized (snd (on_event userId (EvMessage m lk po) s)) = initialized s"
    using arg_cong [OF e, of initialized] by simp
  show "emitted (snd (on_event userId (EvMessage m lk po) s)) = emitted s"
    using arg_cong [OF e, of emitted] by simp
qed

lemma replace_first_prefix:
  "startsWith item p \<Longrightarrow> replace_first item p r = r @ drop (length p) item"
  by (cases item) (auto simp: startsWith_def)

lemma restore_item_eq:
  "restore_item item s =
     (Ok (),
      if startsWith item ''session-'' then
        snd (startClient_sync (drop (length ''session-'') item)
               (console_log (''Found persisted session for: '' @ drop (length ''session-'') item @ '', restoring...'') s))
      else s)"
  by (simp add: restore_item_def exec_def replace_first_prefix Let_def)

lemma sweep_Nil: "steps (map restore_item []) s = (Ok (), s)"
  by simp

lemma sweep_Cons:
  "steps (map restore_item (item # items)) s =
     steps (map restore_item items) (snd (restore_item item s))"
  by (simp add: restore_item_eq)

lemma sweep_returns: "fst (steps (map restore_item items) s) = Ok ()"
  by (induction items arbitrary: s) (simp_all only: sweep_Nil sweep_Cons fst_conv)

lemma init_eq:
  "init en rd s =
     (case en of
        Rejects e \<Rightarrow> (Raise e, console_log ''Initializing ClientManager...'' s)
      | Resolves _ \<Rightarrow>
          (case rd of
             Rejects e \<Rightarrow>
               (Ok (), console_error ''Error restoring sessions:''
                         (console_log ''Initializing ClientManager...'' s))
           | Resolves _ \<Rightarrow>
               steps (map restore_item (dirs s)) (console_log ''Initializing ClientManager...'' s)))"
proof -
  have d: "dirs (console_log ''Initializing ClientManager...'' s) = dirs s"
    by (simp add: console_log_def)
  have "fst (steps (map restore_item (dirs s)) (console_log ''Initializing ClientManager...'' s)) = Ok ()"
    by (rule sweep_returns)
  then obtain s' where
    "steps (map restore_item (dirs s)) (console_log ''Initializing ClientManager...'' s) = (Ok (), s')"
    by (metis prod.collapse)
  then show ?thesis
    by (simp add: init_def exec_def await_def try_catch_def d split: outcome.splits)
qed


section \<open>Invariants of the registry\<close>

lemma extends_refl: "extends s s"
  unfolding extends_def by simp

lemma extends_createdD: "extends s s' \<Longrightarrow> \<exists>cs. created s' = created s @ cs"
  unfolding extends_def by (elim conjE)

lemma extends_initializedD: "extends s s' \<Longrightarrow> \<exists>ns. initialized s' = initialized s @ ns"
  unfolding extends_def by (elim conjE)

lemma extends_lastQrD: "extends s s' \<Longrightarrow> lastQr s' = lastQr s"
  unfolding extends_def by (elim conjE)

lemma extends_clientsD:
  "extends s s' \<Longrightarrow>
   clients s' userId = clients s userId \<or>
   (clients s userId = None \<and>
    (\<exists>client. clients s' userId = Some client \<and> length (created s) \<le> client \<and>
       (client, userId) \<in> set (created s') \<and> client \<in> set (initialized s')))"
  unfolding extends_def by (elim conjE, erule allE [of _ userId])

lemma extends_trans:
  assumes "extends s s1" and "extends s1 s2"
  shows "extends s s2"
proof -
  obtain cs where cs: "created s1 = created s @ cs"
    using extends_createdD [OF assms(1)] ..
  obtain cs' where cs': "created s2 = created s1 @ cs'"
    using extends_createdD [OF assms(2)] ..
  obtain ns where ns: "initialized s1 = initialized s @ ns"
    using extends_initializedD [OF assms(1)] ..
  obtain ns' where ns': "initialized s2 = initialized s1 @ ns'"
    using extends_initializedD [OF assms(2)] ..
  have q: "lastQr s2 = lastQr s"
    using extends_lastQrD [OF assms(1)] extends_lastQrD [OF assms(2)] by simp
  have k: "clients s2 userId = clients s userId \<or>
         (clients s userId = None \<and>
          (\<exists>client. clients s2 userId = Some client \<and> length (created s) \<le> client \<and>
             (client, userId) \<in> set (created s2) \<and> client \<in> set (initialized s2)))" for userId
  proof (cases "clients s1 userId = clients s userId")
    case True
    show ?thesis
      using extends_clientsD [OF assms(2), of userId] True cs by auto
  next
    case False
    with extends_clientsD [OF assms(1), of userId] obtain client where
      1: "clients s userId = None" "clients s1 userId = Some client"
         "length (created s) \<le> client" "(client, userId) \<in> set (created s1)"
         "client \<in> set (initialized s1)"
      by blast
    from extends_clientsD [OF assms(2), of userId] 1 have "clients s2 userId = Some client"
      by auto
    with 1 cs' ns' show ?thesis by simp
  qed
  have c: "\<exists>cs. created s2 = created s @ cs"
    using cs cs' by simp
  have n: "\<exists>ns. initialized s2 = initialized s @ ns"
    using ns ns' by simp
  from c n q k show ?thesis
    unfolding extends_def by (intro conjI allI)
qed

lemma extends_console_log: "extends s (console_log m s)"
  by (simp add: extends_def console_log_def)

lemma extends_startClient_sync: "extends s (snd (startClient_sync userId s))"
  by (cases "clients s userId"; cases "valid_clientId userId")
     (simp_all add: startClient_sync_existing startClient_sync_absent startClient_sync_refused
        extends_def emitToUser_def)

lemma extends_restore_item: "extends s (snd (restore_item item s))"
proof (cases "startsWith item ''session-''")
  case True
  then show ?thesis
    by (simp add: restore_item_eq extends_trans [OF extends_console_log extends_startClient_sync])
next
  case False
  then show ?thesis
    by (simp add: restore_item_eq extends_refl)
qed

lemma extends_sweep: "extends s (snd (steps (map restore_item items) s))"
proof (induction items arbitrary: s)
  case Nil
  show ?case by (simp add: extends_refl)
next
  case (Cons item items)
  show ?case
    unfolding sweep_Cons
    by (rule extends_trans [OF extends_restore_item Cons.IH])
qed

lemma handles_wf_new: "handles_wf (new_mgr ds)"
  by (simp add: handles_wf_def new_mgr_def)

lemma handles_wf_startClient_sync:
  "handles_wf s \<Longrightarrow> handles_wf (snd (startClient_sync userId s))"
  by (cases "clients s userId"; cases "valid_clientId userId")
     (auto simp: startClient_sync_existing startClient_sync_absent startClient_sync_refused
        handles_wf_def emitToUser_def)

lemma handles_wf_console_log: "handles_wf (console_log m s) = handles_wf s"
  by (simp add: handles_wf_def console_log_def)

lemma handles_wf_restore_item: "handles_wf s \<Longrightarrow> handles_wf (snd (restore_item item s))"
  by (simp add: restore_item_eq handles_wf_startClient_sync handles_wf_console_log)

lemma handles_wf_sweep:
  "handles_wf s \<Longrightarrow> handles_wf (snd (steps (map restore_item items) s))"
proof (induction items arbitrary: s)
  case Nil
  then show ?case by simp
next
  case (Cons item items)
  then show ?case
    unfolding sweep_Cons by (simp add: handles_wf_restore_item)
qed


lemma on_event_message:
  "on_event userId (EvMessage m lk po) s = dispatchWebhook userId m lk po s"
  by simp

declare on_event.simps [simp del]

lemma extends_init: "extends s (snd (init en rd s))"
proof (cases en)
  case (Rejects e)
  then show ?thesis by (simp add: init_eq extends_console_log)
next
  case en: (Resolves x)
  show ?thesis
  proof (cases rd)
    case (Rejects e)
    with en show ?thesis
      by (simp add: init_eq extends_def console_log_def console_error_def)
  next
    case (Resolves y)
    with en show ?thesis
      by (simp add: init_eq extends_trans [OF extends_console_log extends_sweep])
  qed
qed

lemma handles_wf_init: "handles_wf s \<Longrightarrow> handles_wf (snd (init en rd s))"
  by (cases en; cases rd)
     (simp_all add: init_eq handles_wf_sweep handles_wf_console_log,
      simp add: handles_wf_def console_log_def console_error_def)

lemma startClient_settle_eq:
  "startClient_settle userId out s =
     (Ok (), if failed out
             then s\<lparr>emitted := emitted s @ [(userId, ErrorEv ''Failed to initialize'')],
                    console := console s @ [(Err, ''Failed to initialize client for '' @ userId)]\<rparr>
             else s)"
  by (cases out) (simp_all add: startClient_settle_resolves startClient_settle_rejects failed_def)

lemma handles_wf_on_event: "handles_wf s \<Longrightarrow> handles_wf (snd (on_event userId ev s))"
proof (cases ev)
  case (EvMessage m lk po)
  assume "handles_wf s"
  then show ?thesis
    unfolding EvMessage handles_wf_def on_event_message_fields .
qed (auto simp: on_event_qr on_event_ready on_event_auth_failure on_event_disconnected
      handles_wf_def)

lemma handles_wf_step: "handles_wf s \<Longrightarrow> handles_wf (step a s)"
proof (cases a)
  case (CallStart userId)
  assume "handles_wf s"
  then show ?thesis by (simp add: CallStart handles_wf_startClient_sync)
next
  case (InitSettles userId out)
  assume "handles_wf s"
  then show ?thesis by (simp add: InitSettles startClient_settle_eq handles_wf_def)
next
  case (Emits client ev)
  assume "handles_wf s"
  then show ?thesis
    by (simp add: Emits handles_wf_on_event split: option.splits)
next
  case (DelLogout client lo)
  assume "handles_wf s"
  then show ?thesis by (simp add: DelLogout del_logout_eq handles_wf_def)
next
  case (DelDestroy client de)
  assume "handles_wf s"
  then show ?thesis by (simp add: DelDestroy del_destroy_eq handles_wf_def)
next
  case (DelUnregister userId)
  assume "handles_wf s"
  then show ?thesis by (simp add: DelUnregister clients_delete_def handles_wf_def)
next
  case (DelFiles userId rm)
  assume "handles_wf s"
  then show ?thesis by (simp add: DelFiles del_files_eq handles_wf_def)
next
  case (DelEmit userId)
  assume "handles_wf s"
  then show ?thesis by (simp add: DelEmit emitToUser_def handles_wf_def)
next
  case (InitSweep en rd)
  assume "handles_wf s"
  then show ?thesis by (simp add: InitSweep handles_wf_init)
qed

lemma handles_wf_run: "handles_wf s \<Longrightarrow> handles_wf (run as s)"
  by (induction as arbitrary: s) (simp_all add: handles_wf_step)

lemma handles_wf_reachable: "handles_wf (run as (new_mgr ds))"
  by (simp add: handles_wf_run handles_wf_new)

lemma handles_wf_fresh:
  "handles_wf s \<Longrightarrow> length (created s) \<le> client \<Longrightarrow> client \<notin> fst ` set (created s)"
proof -
  assume a: "handles_wf s" "length (created s) \<le> client"
  have "fst ` set (created s) = set (map fst (created s))" by simp
  also have "\<dots> = {0..<length (created s)}"
    using a(1) by (simp add: handles_wf_def)
  finally show ?thesis using a(2) by simp
qed

lemma handles_wf_handler_user:
  "handles_wf s \<Longrightarrow> clients s userId = Some client \<Longrightarrow> handler_user s client = Some userId"
proof -
  assume a: "handles_wf s" "clients s userId = Some client"
  then have "distinct (map fst (created s))" "(client, userId) \<in> set (created s)"
    by (simp_all add: handles_wf_def)
  then show ?thesis
    by (simp add: handler_user_def)
qed

text \<open>How one action can change the registry entry of a user.\<close>

lemma step_clients:
  "clients (step a s) userId = clients s userId \<or> clients (step a s) userId = None \<or>
   (clients s userId = None \<and>
    (\<exists>client. clients (step a s) userId = Some client \<and> length (created s) \<le> client \<and>
       (client, userId) \<in> set (created (step a s)) \<and> client \<in> set (initialized (step a s))))"
proof (cases a)
  case (CallStart u)
  have "extends s (snd (startClient_sync u s))"
    by (rule extends_startClient_sync)
  from extends_clientsD [OF this, of userId] show ?thesis
    unfolding CallStart step.simps by blast
next
  case (InitSettles u out)
  show ?thesis by (simp add: InitSettles startClient_settle_eq)
next
  case (Emits client ev)
  show ?thesis
    by (cases ev)
       (simp_all add: Emits on_event_qr on_event_ready on_event_auth_failure
          on_event_disconnected on_event_message_fields split: option.splits)
next
  case (DelLogout client lo)
  show ?thesis by (simp add: DelLogout del_logout_eq)
next
  case (DelDestroy client de)
  show ?thesis by (simp add: DelDestroy del_destroy_eq)
next
  case (DelUnregister u)
  show ?thesis by (simp add: DelUnregister clients_delete_def)
next
  case (DelFiles u rm)
  show ?thesis by (simp add: DelFiles del_files_eq)
next
  case (DelEmit u)
  show ?thesis by (simp add: DelEmit emitToUser_def)
next
  case (InitSweep en rd)
  have "extends s (snd (init en rd s))"
    by (rule extends_init)
  from extends_clientsD [OF this, of userId] show ?thesis
    unfolding InitSweep step.simps by blast
qed


lemma step_lastQr:
  "lastQr (step a s) userId =
     (case a of
        Emits client (EvQr qr) \<Rightarrow>
          if handler_user s client = Some userId then Some qr else lastQr s userId
      | Emits client EvReady \<Rightarrow>
          if handler_user s client = Some userId then None else lastQr s userId
      | _ \<Rightarrow> lastQr s userId)"
proof (cases a)
  case (CallStart u)
  have "extends s (snd (startClient_sync u s))"
    by (rule extends_startClient_sync)
  from extends_lastQrD [OF this] show ?thesis
    by (simp add: CallStart)
next
  case (InitSettles u out)
  show ?thesis by (simp add: InitSettles startClient_settle_eq)
next
  case (Emits client ev)
  show ?thesis
    by (cases ev)
       (auto simp: Emits on_event_qr on_event_ready on_event_auth_failure
          on_event_disconnected on_event_message_fields split: option.splits)
next
  case (DelLogout client lo)
  show ?thesis by (simp add: DelLogout del_logout_eq)
next
  case (DelDestroy client de)
  show ?thesis by (simp add: DelDestroy del_destroy_eq)
next
  case (DelUnregister u)
  show ?thesis by (simp add: DelUnregister clients_delete_def)
next
  case (DelFiles u rm)
  show ?thesis by (simp add: DelFiles del_files_eq)
next
  case (DelEmit u)
  show ?thesis by (simp add: DelEmit emitToUser_def)
next
  case (InitSweep en rd)
  have "extends s (snd (init en rd s))"
    by (rule extends_init)
  from extends_lastQrD [OF this] show ?thesis
    by (simp add: InitSweep)
qed

text \<open>The sequential operations are runs of the actions.\<close>

lemma startClient_as_run:
  "snd (startClient userId out s) =
     (case clients s userId of
        Some existing \<Rightarrow> run [CallStart userId] s
      | None \<Rightarrow>
          if valid_clientId userId then run [CallStart userId, InitSettles userId out] s
          else run [CallStart userId] s)"
  by (cases "clients s userId"; cases "valid_clientId userId")
     (simp_all add: startClient_def startClient_sync_existing startClient_sync_absent
        startClient_sync_refused startClient_settle_eq)

lemma deleteSession_as_run:
  "snd (deleteSession userId lo de rm s) =
     (case clients s userId of
        Some client \<Rightarrow>
          run [DelLogout client lo, DelDestroy client de, DelUnregister userId,
               DelFiles userId rm, DelEmit userId] s
      | None \<Rightarrow> run [DelFiles userId rm, DelEmit userId] s)"
  by (cases "clients s userId")
     (simp_all add: deleteSession_registered deleteSession_unregistered)

lemma startClient_absent:
  assumes "clients s userId = None" and "valid_clientId userId"
  shows "fst (startClient userId out s) = Ok (length (created s))"
    and "clients (snd (startClient userId out s)) userId = Some (length (created s))"
    and "initialized (snd (startClient userId out s)) = initialized s @ [length (created s)]"
    and "created (snd (startClient userId out s)) = created s @ [(length (created s), userId)]"
  using assms
  by (simp_all add: startClient_def startClient_sync_absent startClient_settle_eq)

text \<open>
  C1. In every state the process can reach, by any interleaving of its actions: a start for
  a user whose client is registered returns that client and constructs and stores nothing;
  one action leaves the user's entry as it is, or removes it, or fills it, when it is empty,
  with a client constructed by that action; and the registered client was constructed for this
  user and is registered for no other. So the entry never goes from one client to another.
\<close>

theorem registry_one_client_per_user:
  assumes "s = run as (new_mgr ds)"
  shows "(\<forall>existing. clients s userId = Some existing \<longrightarrow>
            startClient_sync userId s =
              (Existing existing, s\<lparr>emitted := emitted s @ [(userId, Status ''CONNECTED'')]\<rparr>)) \<and>
         (\<forall>a. clients (step a s) userId = clients s userId \<or>
              clients (step a s) userId = None \<or>
              (clients s userId = None \<and>
               (\<exists>client. clients (step a s) userId = Some client \<and>
                  client \<notin> fst ` set (created s) \<and>
                  (client, userId) \<in> set (created (step a s))))) \<and>
         (\<forall>client. clients s userId = Some client \<longrightarrow>
            handler_user s client = Some userId \<and>
            (\<forall>other. clients s other = Some client \<longrightarrow> other = userId))"
proof (intro conjI allI impI)
  have wf: "handles_wf s"
    unfolding assms by (rule handles_wf_reachable)
  {
    fix existing
    assume "clients s userId = Some existing"
    then show "startClient_sync userId s =
        (Existing existing, s\<lparr>emitted := emitted s @ [(userId, Status ''CONNECTED'')]\<rparr>)"
      by (simp add: startClient_sync_existing emitToUser_def)
  next
    fix a
    show "clients (step a s) userId = clients s userId \<or>
              clients (step a s) userId = None \<or>
              (clients s userId = None \<and>
               (\<exists>client. clients (step a s) userId = Some client \<and>
                  client \<notin> fst ` set (created s) \<and>
                  (client, userId) \<in> set (created (step a s))))"
      using step_clients [of a s userId] handles_wf_fresh [OF wf] by blast
  next
    fix client
    assume c: "clients s userId = Some client"
    then show "handler_user s client = Some userId"
      by (rule handles_wf_handler_user [OF wf])
    fix other
    assume "clients s other = Some client"
    then have "handler_user s client = Some other"
      by (rule handles_wf_handler_user [OF wf])
    with handles_wf_handler_user [OF wf c] show "other = userId" by simp
  }
qed

theorem registry_one_client_per_user_witness:
  "clients (run [CallStart ''u1'', CallStart ''u1'', InitSettles ''u1'' (Resolves ())] (new_mgr []))
     ''u1'' = Some 0 \<and>
   created (run [CallStart ''u1'', CallStart ''u1'', InitSettles ''u1'' (Resolves ())] (new_mgr [])) =
     [(0, ''u1'')]"
  using registry_one_client_per_user
    [where as = "[CallStart ''u1'', CallStart ''u1'', InitSettles ''u1'' (Resolves ())]"
       and ds = "[]" and userId = "''u1''", OF refl]
  by (simp add: new_mgr_def startClient_sync_def startClient_settle_eq new_Client_def valid_clientId_def
      console_log_def emitToUser_def clients_set_def call_initialize_def failed_def)

text \<open>
  C3. In a reachable state where a client is registered for the user, the \<open>disconnected\<close>
  event of that client sends \<open>disconnected\<close> with the reason to the user and leaves
  \<open>getClient\<close> empty for the user; the next \<open>startClient\<close> returns a client that was not
  constructed before and registers it.
\<close>

theorem disconnected_removes_client:
  assumes "s = run as (new_mgr ds)" and "clients s userId = Some client"
  shows "emitted (step (Emits client (EvDisconnected reason)) s) =
           emitted s @ [(userId, DisconnectedEv reason)] \<and>
         getClient (step (Emits client (EvDisconnected reason)) s) userId = None \<and>
         (\<exists>fresh. fst (startClient userId out (step (Emits client (EvDisconnected reason)) s)) = Ok fresh \<and>
            fresh \<noteq> client \<and> fresh \<notin> fst ` set (created s) \<and>
            getClient (snd (startClient userId out (step (Emits client (EvDisconnected reason)) s))) userId =
              Some fresh \<and>
            initialized (snd (startClient userId out (step (Emits client (EvDisconnected reason)) s))) =
              initialized s @ [fresh])"
proof -
  have wf: "handles_wf s"
    unfolding assms(1) by (rule handles_wf_reachable)
  have h: "handler_user s client = Some userId"
    by (rule handles_wf_handler_user [OF wf assms(2)])
  let ?s' = "step (Emits client (EvDisconnected reason)) s"
  have s': "?s' = s\<lparr>clients := (clients s)(userId := None),
              emitted := emitted s @ [(userId, DisconnectedEv reason)],
              console := console s @
                [(Info, ''Client '' @ userId @ '' disconnected: '' @ reason @ '' '')]\<rparr>"
    by (simp add: h on_event_disconnected)
  have fresh: "length (created s) \<notin> fst ` set (created s)"
    by (rule handles_wf_fresh [OF wf]) simp
  have c: "(client, userId) \<in> set (created s)"
    using wf assms(2) by (simp add: handles_wf_def)
  then have "client \<in> fst ` set (created s)"
    by force
  with fresh have ne: "length (created s) \<noteq> client"
    by auto
  have f: "clients ?s' userId = None" "created ?s' = created s" "initialized ?s' = initialized s"
    "emitted ?s' = emitted s @ [(userId, DisconnectedEv reason)]"
    unfolding s' by simp_all
  have "list_all (\<lambda>p. valid_clientId (snd p)) (created s)"
    using wf by (simp add: handles_wf_def)
  with c have v: "valid_clientId userId"
    by (auto simp: list_all_iff)
  show ?thesis
    using fresh ne startClient_absent [OF f(1) v, of out] f
    by (simp add: getClient_def del: step.simps)
qed

theorem disconnected_removes_client_witness:
  "getClient (run [CallStart ''u1'', Emits 0 (EvDisconnected ''LOGOUT'')] (new_mgr [])) ''u1'' = None \<and>
   getClient (run [CallStart ''u1'', Emits 0 (EvDisconnected ''LOGOUT''), CallStart ''u1''] (new_mgr []))
     ''u1'' = Some 1"
  using disconnected_removes_client
    [where as = "[CallStart ''u1'']" and ds = "[]" and userId = "''u1''" and client = 0
       and reason = "''LOGOUT''" and out = "Resolves ()", OF refl]
  by (simp add: new_mgr_def startClient_sync_def new_Client_def valid_clientId_def console_log_def emitToUser_def
      clients_set_def call_initialize_def getClient_def handler_user_def on_event_disconnected)


section \<open>The pairing QR\<close>

text \<open>
  C4, as the claim states it, fails: after a QR event and then the disconnection of the
  client, the user has left the registry and \<open>getQr\<close> still gives the QR; the same holds
  after \<open>deleteSession\<close>.
\<close>

theorem qr_survives_removal:
  "getClient (run [CallStart ''u1'', Emits 0 (EvQr ''2@abc''), Emits 0 (EvDisconnected ''LOGOUT'')]
      (new_mgr [])) ''u1'' = None \<and>
   getQr (run [CallStart ''u1'', Emits 0 (EvQr ''2@abc''), Emits 0 (EvDisconnected ''LOGOUT'')]
      (new_mgr [])) ''u1'' = Some ''2@abc'' \<and>
   getClient (snd (deleteSession ''u1'' (Resolves ()) (Resolves ()) (Resolves ())
      (run [CallStart ''u1'', Emits 0 (EvQr ''2@abc'')] (new_mgr [])))) ''u1'' = None \<and>
   getQr (snd (deleteSession ''u1'' (Resolves ()) (Resolves ()) (Resolves ())
      (run [CallStart ''u1'', Emits 0 (EvQr ''2@abc'')] (new_mgr [])))) ''u1'' = Some ''2@abc''"
  by (simp add: new_mgr_def startClient_sync_def new_Client_def valid_clientId_def console_log_def emitToUser_def
      clients_set_def call_initialize_def getClient_def getQr_def handler_user_def
      on_event_qr on_event_disconnected deleteSession_registered del_logout_eq del_destroy_eq
      del_files_eq clients_delete_def pathExists_def failed_def)

text \<open>
  C4, amended. One action changes \<open>getQr\<close> for a user in two cases only: the QR event of a
  client constructed for the user sets it to the new QR, and the ready event of such a client
  clears it. Every other action leaves it as it is, the \<open>disconnected\<close> event included, and
  so do \<open>startClient\<close> and \<open>deleteSession\<close>.
\<close>

theorem qr_set_on_qr_cleared_on_ready:
  "getQr (step a s) userId =
     (case a of
        Emits client (EvQr qr) \<Rightarrow>
          if handler_user s client = Some userId then Some qr else getQr s userId
      | Emits client EvReady \<Rightarrow>
          if handler_user s client = Some userId then None else getQr s userId
      | _ \<Rightarrow> getQr s userId) \<and>
   getQr (snd (startClient other out s)) userId = getQr s userId \<and>
   getQr (snd (deleteSession other lo de rm s)) userId = getQr s userId"
proof (intro conjI)
  show "getQr (step a s) userId =
     (case a of
        Emits client (EvQr qr) \<Rightarrow>
          if handler_user s client = Some userId then Some qr else getQr s userId
      | Emits client EvReady \<Rightarrow>
          if handler_user s client = Some userId then None else getQr s userId
      | _ \<Rightarrow> getQr s userId)"
    unfolding getQr_def by (rule step_lastQr)
  show "getQr (snd (startClient other out s)) userId = getQr s userId"
    unfolding getQr_def startClient_as_run
    by (simp add: step_lastQr del: step.simps split: option.splits)
  show "getQr (snd (deleteSession other lo de rm s)) userId = getQr s userId"
    unfolding getQr_def deleteSession_as_run
    by (simp add: step_lastQr del: step.simps split: option.splits)
qed

theorem qr_set_on_qr_cleared_on_ready_witness:
  "getQr (step (Emits 0 (EvQr ''2@abc'')) (step (CallStart ''u1'') (new_mgr []))) ''u1'' = Some ''2@abc'' \<and>
   getQr (step (Emits 0 EvReady)
     (step (Emits 0 (EvQr ''2@abc'')) (step (CallStart ''u1'') (new_mgr [])))) ''u1'' = None"
  using qr_set_on_qr_cleared_on_ready
    [where a = "Emits 0 (EvQr ''2@abc'')" and s = "step (CallStart ''u1'') (new_mgr [])"
       and userId = "''u1''"]
    qr_set_on_qr_cleared_on_ready
    [where a = "Emits 0 EvReady"
       and s = "step (Emits 0 (EvQr ''2@abc'')) (step (CallStart ''u1'') (new_mgr []))"
       and userId = "''u1''"]
  by (simp add: new_mgr_def startClient_sync_def new_Client_def valid_clientId_def console_log_def emitToUser_def
      clients_set_def call_initialize_def getQr_def handler_user_def on_event_qr on_event_ready)


section \<open>The recovery sweep\<close>

lemma startClient_refused:
  assumes "clients s userId = None" and "\<not> valid_clientId userId"
  shows "startClient userId out s =
     (Raise ''Invalid clientId. Only alphanumeric characters, underscores and hyphens are allowed.'',
      s\<lparr>emitted := emitted s @ [(userId, Status ''INITIALIZING'')],
        console := console s @ [(Info, ''Starting client for '' @ userId)]\<rparr>)"
  using assms by (simp add: startClient_def startClient_sync_refused)

text \<open>
  C8. With the children \<open>session-a.b\<close> and \<open>session-good\<close> in the credential directory,
  \<open>init\<close> returns normally and calls \<open>startClient\<close> for both users: the status
  \<open>INITIALIZING\<close> goes to each. For \<open>a.b\<close> the constructor throws: no client is registered
  for it, and the console has no warning and no error line, the failure being neither caught
  nor logged. For \<open>good\<close> a client is registered and \<open>initialize\<close> is called on it.
\<close>

theorem init_sweep_constructor_failure_not_logged:
  "init (Resolves ()) (Resolves ()) (new_mgr [''session-a.b'', ''session-good'']) =
     (Ok (), (new_mgr [''session-a.b'', ''session-good''])
        \<lparr>clients := [''good'' \<mapsto> 0], created := [(0, ''good'')], initialized := [0],
          emitted := [(''a.b'', Status ''INITIALIZING''), (''good'', Status ''INITIALIZING'')],
          console := [(Info, ''Initializing ClientManager...''),
                      (Info, ''Found persisted session for: a.b, restoring...''),
                      (Info, ''Starting client for a.b''),
                      (Info, ''Found persisted session for: good, restoring...''),
                      (Info, ''Starting client for good'')]\<rparr>) \<and>
   startClient ''a.b'' (Resolves ()) (new_mgr []) =
     (Raise ''Invalid clientId. Only alphanumeric characters, underscores and hyphens are allowed.'',
      (new_mgr [])
        \<lparr>emitted := [(''a.b'', Status ''INITIALIZING'')],
          console := [(Info, ''Starting client for a.b'')]\<rparr>)"
  by (simp add: init_eq restore_item_eq startsWith_def new_mgr_def startClient_def
      startClient_sync_def new_Client_def valid_clientId_def console_log_def emitToUser_def
      clients_set_def call_initialize_def)

end
